theory Spec2Isabelle
  imports Complex_Main
begin

section \<open>The C type \<open>double\<close>\<close>

text \<open>
  A \<open>double\<close> is either a real number or \<open>NaN\<close>. \<open>NaN\<close> stands for every value that is
  not a finite number. In the arithmetic on doubles the only operation of the two source
  files without a finite result is a division by zero, and what it produces is never
  brought back to a finite value by the code that follows it (\<open>updateDragForce\<close> multiplies
  it by zero components, which gives NaN). As in IEEE 754, \<open>NaN\<close> propagates through
  arithmetic and every ordered comparison with it is false. The arithmetic on finite
  doubles is exact: the rounding and the overflow of double operations are not part of the
  model, and \<open>M_PI\<close> is \<open>pi\<close>. The conversion of a double to \<open>float\<close> does round and
  overflow, see \<open>to_float\<close>.
\<close>

datatype double = Fin real | NaN

instantiation double :: "{zero, one, plus, minus, uminus, times, inverse, ord}"
begin

definition zero_double :: double where
  "zero_double = Fin 0"

definition one_double :: double where
  "one_double = Fin 1"

fun plus_double :: "double \<Rightarrow> double \<Rightarrow> double" where
  "plus_double (Fin a) (Fin b) = Fin (a + b)"
| "plus_double _ _ = NaN"

fun minus_double :: "double \<Rightarrow> double \<Rightarrow> double" where
  "minus_double (Fin a) (Fin b) = Fin (a - b)"
| "minus_double _ _ = NaN"

fun uminus_double :: "double \<Rightarrow> double" where
  "uminus_double (Fin a) = Fin (- a)"
| "uminus_double NaN = NaN"

fun times_double :: "double \<Rightarrow> double \<Rightarrow> double" where
  "times_double (Fin a) (Fin b) = Fin (a * b)"
| "times_double _ _ = NaN"

fun divide_double :: "double \<Rightarrow> double \<Rightarrow> double" where
  "divide_double (Fin a) (Fin b) = (if b = 0 then NaN else Fin (a / b))"
| "divide_double _ _ = NaN"

fun inverse_double :: "double \<Rightarrow> double" where
  "inverse_double (Fin a) = (if a = 0 then NaN else Fin (inverse a))"
| "inverse_double NaN = NaN"

fun less_double :: "double \<Rightarrow> double \<Rightarrow> bool" where
  "less_double (Fin a) (Fin b) = (a < b)"
| "less_double _ _ = False"

fun less_eq_double :: "double \<Rightarrow> double \<Rightarrow> bool" where
  "less_eq_double (Fin a) (Fin b) = (a \<le> b)"
| "less_eq_double _ _ = False"

instance ..

end

instance double :: numeral
proof
  fix a b c :: double
  show "a + b + c = a + (b + c)"
    by (cases a; cases b; cases c) simp_all
qed

instance double :: power ..

text \<open>The functions of \<open>math.h\<close> that the code calls, and the macro \<open>M_PI\<close>.\<close>

definition M_PI :: double where
  "M_PI = Fin pi"

fun sqrt_d :: "double \<Rightarrow> double" where
  "sqrt_d (Fin a) = (if a < 0 then NaN else Fin (sqrt a))"
| "sqrt_d NaN = NaN"

fun exp_d :: "double \<Rightarrow> double" where
  "exp_d (Fin a) = Fin (exp a)"
| "exp_d NaN = NaN"

text \<open>\<open>pow(b, 2)\<close>: the only exponent the code uses is the integer 2.\<close>

fun pow :: "double \<Rightarrow> nat \<Rightarrow> double" where
  "pow (Fin a) n = Fin (a ^ n)"
| "pow NaN n = (if n = 0 then Fin 1 else NaN)"

text \<open>\<open>fmax\<close> returns the other argument when one of them is NaN.\<close>

fun fmax :: "double \<Rightarrow> double \<Rightarrow> double" where
  "fmax (Fin a) (Fin b) = Fin (max a b)"
| "fmax NaN b = b"
| "fmax a NaN = a"

text \<open>
  The error function, by its Maclaurin series
  \<open>erf x = 2 / sqrt pi * (\<Sum>k. (- 1) ^ k * x ^ (2 * k + 1) / (k! * (2 * k + 1)))\<close>.
\<close>

definition erf_term :: "real \<Rightarrow> nat \<Rightarrow> real" where
  "erf_term u k = u ^ (2 * k + 1) / (fact k * real (2 * k + 1))"

definition erf :: "real \<Rightarrow> real" where
  "erf u = 2 / sqrt pi * (\<Sum>k. (- 1) ^ k * erf_term u k)"

fun erf_d :: "double \<Rightarrow> double" where
  "erf_d (Fin a) = Fin (erf a)"
| "erf_d NaN = NaN"

text \<open>Whether a double is a finite number of absolute value at most \<open>b\<close>.\<close>

fun bounded_double :: "real \<Rightarrow> double \<Rightarrow> bool" where
  "bounded_double b (Fin a) = (\<bar>a\<bar> \<le> b)"
| "bounded_double b NaN = False"

subsection \<open>The conversion to \<open>float\<close>\<close>

text \<open>
  A \<open>float\<close> has a significand of 24 bits and exponents from \<open>-126\<close> to \<open>127\<close>. The
  conversion rounds to the nearest float, ties to the one with the even significand:
  \<open>float_ulp r\<close> is the distance between neighbouring floats at the magnitude of \<open>r\<close>
  (\<open>2 ^ -149\<close> among the subnormal numbers), and \<open>float_round r\<close> is the multiple of it
  nearest to \<open>r\<close>. A result of magnitude \<open>2 ^ 128\<close> or more is an infinity, which is
  \<open>NaN\<close> here. The value of a float is kept as a double, as C does when the float is
  used in arithmetic with doubles.
\<close>

definition round_even :: "real \<Rightarrow> int" where
  "round_even v =
     (let n = \<lfloor>v\<rfloor>; d = v - of_int n
      in if d < 1 / 2 then n else if 1 / 2 < d then n + 1 else if even n then n else n + 1)"

definition float_ulp :: "real \<Rightarrow> real" where
  "float_ulp r = 2 powi (max \<lfloor>log 2 \<bar>r\<bar>\<rfloor> (- 126) - 23)"

definition float_round :: "real \<Rightarrow> real" where
  "float_round r = (if r = 0 then 0 else of_int (round_even (r / float_ulp r)) * float_ulp r)"

fun to_float :: "double \<Rightarrow> double" where
  "to_float (Fin r) = (if \<bar>float_round r\<bar> < 2 ^ 128 then Fin (float_round r) else NaN)"
| "to_float NaN = NaN"

section \<open>SumCode.c: the shot-force profile\<close>

definition SIGMA_MIN :: double where
  "SIGMA_MIN = Fin (1 / 10 ^ 6)"

record Vector3d =
  x :: double
  y :: double
  z :: double

definition normalCDF :: "double \<Rightarrow> double" where
  "normalCDF v = 0.5 * (1 + erf_d (v / sqrt_d 2))"

definition calculateShotForce ::
  "double \<Rightarrow> double \<Rightarrow> double \<Rightarrow> double \<Rightarrow> double \<Rightarrow> double \<Rightarrow> double \<Rightarrow> double \<Rightarrow> double
    \<Rightarrow> double \<Rightarrow> double" where
  "calculateShotForce transferEfficiency ballMass shooterRPM bottomWheelRadius gearRatio
      topWheelRadius compression compressionRatio contactTime currentTime =
    (if currentTime < 0 \<or> currentTime > contactTime then 0
     else
       let omega_b = (2 * M_PI * shooterRPM) / 60;
           v_rim_bot = omega_b * bottomWheelRadius;
           v_rim_top = omega_b * gearRatio * topWheelRadius;
           v_muzzle = (v_rim_bot + v_rim_top) / 2;
           impulse = transferEfficiency * ballMass * v_muzzle;
           t0 = contactTime / 2;
           sigma = fmax (compressionRatio * compression) SIGMA_MIN;
           cdf_lo = normalCDF ((0 - t0) / sigma);
           cdf_hi = normalCDF ((contactTime - t0) / sigma);
           norm = cdf_hi - cdf_lo
       in if norm < Fin (1 / 10 ^ 12) then 0
          else
            let exponent = - 0.5 * pow ((currentTime - t0) / sigma) 2;
                gaussian = (1 / (sigma * sqrt_d (2 * M_PI))) * exp_d exponent
            in (impulse / norm) * gaussian)"


subsection \<open>The same function over any arithmetic\<close>

text \<open>
  Which branch \<open>calculateShotForce\<close> takes at \<open>norm < 1e-12\<close> depends on the value that
  the arithmetic of the machine gives to \<open>norm\<close>. To state what the function does for
  every such arithmetic, the operations it uses are collected in a record: how a
  constant of the source is represented (\<open>op_lit\<close>), the four operations, negation, the
  comparison \<open><\<close> and the functions of \<open>math.h\<close>. \<open>calculateShotForce_with\<close> is the source
  function written with the operations of such a record. IEEE double arithmetic with
  its rounding is one instance, the arithmetic of \<open>double\<close> above (\<open>double_arith\<close>) is
  another, for which \<open>calculateShotForce_with\<close> is \<open>calculateShotForce\<close>.
\<close>

record 'a arith =
  op_lit :: "real \<Rightarrow> 'a"
  op_add :: "'a \<Rightarrow> 'a \<Rightarrow> 'a"
  op_sub :: "'a \<Rightarrow> 'a \<Rightarrow> 'a"
  op_mul :: "'a \<Rightarrow> 'a \<Rightarrow> 'a"
  op_div :: "'a \<Rightarrow> 'a \<Rightarrow> 'a"
  op_neg :: "'a \<Rightarrow> 'a"
  op_less :: "'a \<Rightarrow> 'a \<Rightarrow> bool"
  op_fmax :: "'a \<Rightarrow> 'a \<Rightarrow> 'a"
  op_sqrt :: "'a \<Rightarrow> 'a"
  op_erf :: "'a \<Rightarrow> 'a"
  op_exp :: "'a \<Rightarrow> 'a"
  op_pow :: "'a \<Rightarrow> nat \<Rightarrow> 'a"

definition double_arith :: "double arith" where
  "double_arith =
     \<lparr>op_lit = Fin, op_add = (+), op_sub = (-), op_mul = (*), op_div = (/), op_neg = uminus,
      op_less = (<), op_fmax = fmax, op_sqrt = sqrt_d, op_erf = erf_d, op_exp = exp_d,
      op_pow = pow\<rparr>"

definition normalCDF_with :: "'a arith \<Rightarrow> 'a \<Rightarrow> 'a" where
  "normalCDF_with A v =
     op_mul A (op_lit A 0.5)
       (op_add A (op_lit A 1) (op_erf A (op_div A v (op_sqrt A (op_lit A 2)))))"

text \<open>The value of the local variable \<open>norm\<close>, which depends on three of the arguments.\<close>

definition norm_with :: "'a arith \<Rightarrow> 'a \<Rightarrow> 'a \<Rightarrow> 'a \<Rightarrow> 'a" where
  "norm_with A compression compressionRatio contactTime =
     (let t0 = op_div A contactTime (op_lit A 2);
          sigma = op_fmax A (op_mul A compressionRatio compression) (op_lit A (1 / 10 ^ 6));
          cdf_lo = normalCDF_with A (op_div A (op_sub A (op_lit A 0) t0) sigma);
          cdf_hi = normalCDF_with A (op_div A (op_sub A contactTime t0) sigma)
      in op_sub A cdf_hi cdf_lo)"

definition calculateShotForce_with ::
  "'a arith \<Rightarrow> 'a \<Rightarrow> 'a \<Rightarrow> 'a \<Rightarrow> 'a \<Rightarrow> 'a \<Rightarrow> 'a \<Rightarrow> 'a \<Rightarrow> 'a \<Rightarrow> 'a \<Rightarrow> 'a \<Rightarrow> 'a" where
  "calculateShotForce_with A transferEfficiency ballMass shooterRPM bottomWheelRadius gearRatio
      topWheelRadius compression compressionRatio contactTime currentTime =
    (if op_less A currentTime (op_lit A 0) \<or> op_less A contactTime currentTime then op_lit A 0
     else
       let omega_b = op_div A (op_mul A (op_mul A (op_lit A 2) (op_lit A pi)) shooterRPM)
                       (op_lit A 60);
           v_rim_bot = op_mul A omega_b bottomWheelRadius;
           v_rim_top = op_mul A (op_mul A omega_b gearRatio) topWheelRadius;
           v_muzzle = op_div A (op_add A v_rim_bot v_rim_top) (op_lit A 2);
           impulse = op_mul A (op_mul A transferEfficiency ballMass) v_muzzle;
           t0 = op_div A contactTime (op_lit A 2);
           sigma = op_fmax A (op_mul A compressionRatio compression) (op_lit A (1 / 10 ^ 6));
           cdf_lo = normalCDF_with A (op_div A (op_sub A (op_lit A 0) t0) sigma);
           cdf_hi = normalCDF_with A (op_div A (op_sub A contactTime t0) sigma);
           norm = op_sub A cdf_hi cdf_lo
       in if op_less A norm (op_lit A (1 / 10 ^ 12)) then op_lit A 0
          else
            let exponent = op_mul A (op_neg A (op_lit A 0.5))
                             (op_pow A (op_div A (op_sub A currentTime t0) sigma) 2);
                gaussian = op_mul A
                             (op_div A (op_lit A 1)
                                (op_mul A sigma (op_sqrt A (op_mul A (op_lit A 2) (op_lit A pi)))))
                             (op_exp A exponent)
            in op_mul A (op_div A impulse norm) gaussian)"




definition shot_sigma :: "real \<Rightarrow> real \<Rightarrow> real" where
  "shot_sigma cr c = max (cr * c) (1 / 10 ^ 6)"


definition gaussian_cdf :: "real \<Rightarrow> real \<Rightarrow> real \<Rightarrow> real" where
  "gaussian_cdf mu sigma t = (1 + erf ((t - mu) / (sigma * sqrt 2))) / 2"

text \<open>The normalisation denominator \<open>CDF(contactTime) - CDF(0)\<close> of the truncated Gaussian.\<close>

definition shot_norm :: "real \<Rightarrow> real \<Rightarrow> real \<Rightarrow> real" where
  "shot_norm cr c ct =
     gaussian_cdf (ct / 2) (shot_sigma cr c) ct - gaussian_cdf (ct / 2) (shot_sigma cr c) 0"


section \<open>main.c: forces and the integration step\<close>

text \<open>
  The global variables of \<open>main.c\<close>, in the order of their declarations. The functions
  that assign to a global take the globals and return them updated.
\<close>

record globals =
  gravityForce :: Vector3d
  magnusForce :: Vector3d
  dragForce :: Vector3d
  shotForce :: Vector3d
  position :: Vector3d
  velocity :: Vector3d
  acceleration :: Vector3d
  ballArea :: double
  spinVector :: Vector3d
  timeStep :: double
  turretAngle :: double
  shooterRPM :: double
  hoodAngle :: double
  ballMass :: double
  ballRadius :: double
  airDensity :: double
  dragCoefficient :: double
  magnusCoefficient :: double

definition createVector :: "double \<Rightarrow> double \<Rightarrow> double \<Rightarrow> Vector3d" where
  "createVector a b c = \<lparr>x = a, y = b, z = c\<rparr>"

definition bounded_vector :: "real \<Rightarrow> Vector3d \<Rightarrow> bool" where
  "bounded_vector b v \<longleftrightarrow>
     bounded_double b (x v) \<and> bounded_double b (y v) \<and> bounded_double b (z v)"

text \<open>
  The initial values of the globals. \<open>ballArea\<close> and \<open>spinVector\<close> have no initialiser
  and static storage, so they start as zero; the variables of the same names that
  \<open>main\<close> declares are locals of \<open>main\<close>.
\<close>

definition initial_globals :: globals where
  "initial_globals =
     \<lparr>gravityForce = createVector 0 0 (- 9.81),
      magnusForce = createVector 0 0 0,
      dragForce = createVector 0 0 0,
      shotForce = createVector 0 0 0,
      position = createVector 0 0 0,
      velocity = createVector 0 0 0,
      acceleration = createVector 0 0 0,
      ballArea = 0,
      spinVector = createVector 0 0 0,
      timeStep = 0.01,
      turretAngle = 0,
      shooterRPM = 0,
      hoodAngle = 0,
      ballMass = 0.045,
      ballRadius = 0.02135,
      airDensity = 1.225,
      dragCoefficient = 0.47,
      magnusCoefficient = 0.1\<rparr>"

definition add :: "Vector3d \<Rightarrow> Vector3d \<Rightarrow> Vector3d" where
  "add a b = \<lparr>x = x a + x b, y = y a + y b, z = z a + z b\<rparr>"

text \<open>
  The parameter \<open>scalar\<close> has type \<open>float\<close>: the argument is converted to \<open>float\<close> at
  the call, and the products are formed in double.
\<close>

definition scalarMultiply :: "Vector3d \<Rightarrow> double \<Rightarrow> Vector3d" where
  "scalarMultiply v scalar =
     (let scalar = to_float scalar
      in \<lparr>x = x v * scalar, y = y v * scalar, z = z v * scalar\<rparr>)"

definition vectorCross :: "Vector3d \<Rightarrow> Vector3d \<Rightarrow> Vector3d" where
  "vectorCross a b =
     \<lparr>x = y a * z b - z a * y b,
      y = z a * x b - x a * z b,
      z = x a * y b - y a * x b\<rparr>"

definition vectorMagnitude :: "Vector3d \<Rightarrow> double" where
  "vectorMagnitude v = sqrt_d (x v * x v + y v * y v + z v * z v)"


definition updateDragForce :: "globals \<Rightarrow> globals" where
  "updateDragForce s =
     (let speed = vectorMagnitude (velocity s);
          dragMagnitude = 0.5 * airDensity s * speed * speed * dragCoefficient s * ballArea s;
          dragDirection = scalarMultiply (velocity s) (- 1 / speed)
      in s\<lparr>dragForce := scalarMultiply dragDirection dragMagnitude\<rparr>)"

definition updateMagnusForce :: "globals \<Rightarrow> globals" where
  "updateMagnusForce s =
     (let speed = vectorMagnitude (velocity s);
          magnusMagnitude =
            0.5 * airDensity s * speed * ballArea s * ballRadius s * magnusCoefficient s;
          magnusDirection = vectorCross (spinVector s) (velocity s)
      in s\<lparr>magnusForce := scalarMultiply magnusDirection magnusMagnitude\<rparr>)"

definition updateShotForce :: "globals \<Rightarrow> globals" where
  "updateShotForce s = s\<lparr>shotForce := createVector 0 0 0\<rparr>"

definition updateForces :: "globals \<Rightarrow> globals" where
  "updateForces s = updateShotForce (updateMagnusForce (updateDragForce s))"

definition updateAcceleration :: "globals \<Rightarrow> globals" where
  "updateAcceleration s =
     (let totalForce = add (add (gravityForce s) (dragForce s)) (add (magnusForce s) (shotForce s))
      in s\<lparr>acceleration := scalarMultiply totalForce (1 / ballMass s)\<rparr>)"

definition updateVelocity :: "globals \<Rightarrow> globals" where
  "updateVelocity s = s\<lparr>velocity := add (velocity s) (scalarMultiply (acceleration s) (timeStep s))\<rparr>"

definition updatePosition :: "globals \<Rightarrow> globals" where
  "updatePosition s = s\<lparr>position := add (position s) (scalarMultiply (velocity s) (timeStep s))\<rparr>"

section \<open>The error function\<close>

lemma erf_term_minus: "erf_term (- u) k = - erf_term u k"
  by (simp add: erf_term_def)

lemma erf_term_nonneg: "0 \<le> u \<Longrightarrow> 0 \<le> erf_term u k"
  by (simp add: erf_term_def)

lemma erf_term_bound: "\<bar>erf_term u k\<bar> \<le> \<bar>u\<bar> * (inverse (fact k) * (u\<^sup>2) ^ k)"
proof -
  have "erf_term u k = u * (u\<^sup>2) ^ k / (fact k * real (2 * k + 1))"
    by (simp add: erf_term_def power_mult)
  moreover have "\<bar>u * (u\<^sup>2) ^ k\<bar> = \<bar>u\<bar> * (u\<^sup>2) ^ k"
    by (simp add: abs_mult)
  ultimately have "\<bar>erf_term u k\<bar> = \<bar>u\<bar> * (u\<^sup>2) ^ k / (fact k * real (2 * k + 1))"
    by (simp only: abs_divide) simp
  also have "\<dots> \<le> \<bar>u\<bar> * (u\<^sup>2) ^ k / (fact k * 1)"
    by (intro divide_left_mono mult_left_mono) (simp_all add: mult_nonneg_nonneg)
  finally show ?thesis
    by (simp add: field_simps)
qed

lemma summable_abs_erf_term: "summable (\<lambda>k. \<bar>erf_term u k\<bar>)"
proof (rule summable_rabs_comparison_test)
  show "summable (\<lambda>k. \<bar>u\<bar> * (inverse (fact k) * (u\<^sup>2) ^ k))"
    by (intro summable_mult summable_exp)
  show "\<exists>N. \<forall>k\<ge>N. \<bar>erf_term u k\<bar> \<le> \<bar>u\<bar> * (inverse (fact k) * (u\<^sup>2) ^ k)"
    using erf_term_bound [of u] by blast
qed

lemma summable_erf_series: "summable (\<lambda>k. (- 1) ^ k * erf_term u k)"
proof (rule summable_comparison_test')
  show "summable (\<lambda>k. \<bar>erf_term u k\<bar>)"
    by (rule summable_abs_erf_term)
  show "norm ((- 1) ^ k * erf_term u k) \<le> \<bar>erf_term u k\<bar>" if "k \<ge> 0" for k
    by (simp add: abs_mult power_abs)
qed

lemma erf_minus: "erf (- u) = - erf u"
  unfolding erf_def erf_term_minus
  using suminf_minus [OF summable_erf_series [of u]] by simp

lemma erf_zero: "erf 0 = 0"
  using erf_minus [of 0] by simp

lemma erf_term_decreasing:
  assumes "0 \<le> u" "u \<le> 1"
  shows "erf_term u (Suc k) \<le> erf_term u k"
proof -
  have u2: "u\<^sup>2 \<le> 1"
    using assms by (simp add: power_le_one)
  have p: "0 \<le> u ^ (2 * k + 1)"
    using assms by simp
  have "erf_term u (Suc k) = u ^ (2 * k + 1) * u\<^sup>2 / (fact (Suc k) * real (2 * Suc k + 1))"
    by (simp add: erf_term_def power2_eq_square)
  also have "\<dots> \<le> u ^ (2 * k + 1) * 1 / (fact (Suc k) * real (2 * Suc k + 1))"
    by (intro divide_right_mono mult_left_mono u2 p) simp
  also have "\<dots> \<le> u ^ (2 * k + 1) * 1 / (fact k * real (2 * k + 1))"
  proof (intro divide_left_mono)
    show "fact k * real (2 * k + 1) \<le> fact (Suc k) * real (2 * Suc k + 1)"
      by (intro mult_mono) (simp_all add: fact_mono)
  qed (use p in simp_all)
  finally show ?thesis
    by (simp add: erf_term_def)
qed

lemma erf_bounds:
  assumes "0 \<le> u" "u \<le> 1"
  shows "2 / sqrt pi * (u - u ^ 3 / 3) \<le> erf u" and "erf u \<le> 2 / sqrt pi * u"
proof -
  have z: "erf_term u \<longlonglongrightarrow> 0"
    using summable_LIMSEQ_zero [OF summable_abs_erf_term [of u]]
    by (simp add: tendsto_rabs_zero_iff)
  note L = summable_Leibniz' [OF z erf_term_nonneg [OF assms(1)] erf_term_decreasing [OF assms]]
  have "(\<Sum>i<2 * 1. (- 1) ^ i * erf_term u i) \<le> (\<Sum>i. (- 1) ^ i * erf_term u i)"
    by (rule L(2))
  moreover have "(\<Sum>i<2 * 1. (- 1) ^ i * erf_term u i) = u - u ^ 3 / 3"
    by (simp add: erf_term_def numeral_2_eq_2 power3_eq_cube)
  ultimately have lo: "u - u ^ 3 / 3 \<le> (\<Sum>i. (- 1) ^ i * erf_term u i)"
    by simp
  have "(\<Sum>i. (- 1) ^ i * erf_term u i) \<le> (\<Sum>i<2 * 0 + 1. (- 1) ^ i * erf_term u i)"
    by (rule L(4))
  then have hi: "(\<Sum>i. (- 1) ^ i * erf_term u i) \<le> u"
    by (simp add: erf_term_def)
  show "2 / sqrt pi * (u - u ^ 3 / 3) \<le> erf u"
    unfolding erf_def using lo by (intro mult_left_mono) simp_all
  show "erf u \<le> 2 / sqrt pi * u"
    unfolding erf_def using hi by (intro mult_left_mono) simp_all
qed

section \<open>Arithmetic on finite doubles\<close>

lemma numeral_double: "(numeral n :: double) = Fin (numeral n)"
proof (induction n)
  case One
  show ?case by (simp add: one_double_def)
next
  case (Bit0 n)
  have "(numeral (num.Bit0 n) :: double) = numeral n + numeral n" by (rule numeral_Bit0)
  also have "\<dots> = Fin (numeral n + numeral n)" by (simp only: Bit0.IH plus_double.simps)
  also have "\<dots> = Fin (numeral (num.Bit0 n))" by (simp only: numeral_Bit0)
  finally show ?case .
next
  case (Bit1 n)
  have "(numeral (num.Bit1 n) :: double) = numeral n + numeral n + 1" by (rule numeral_Bit1)
  also have "\<dots> = Fin (numeral n + numeral n + 1)" by (simp only: Bit1.IH plus_double.simps one_double_def)
  also have "\<dots> = Fin (numeral (num.Bit1 n))" by (simp only: numeral_Bit1)
  finally show ?case .
qed

lemma power_double: "(Fin a) ^ n = Fin (a ^ n)"
  by (induction n) (simp_all add: one_double_def)

lemmas double_simps =
  numeral_double power_double zero_double_def one_double_def M_PI_def SIGMA_MIN_def

lemma times_NaN: "a * NaN = NaN" "NaN * a = NaN"
  by (cases a; simp)+


section \<open>The conversion to \<open>float\<close> at concrete values and in range\<close>

lemma powi_powr: "(2::real) powi n = 2 powr of_int n"
  by (simp add: power_int_def powr_int power_divide)

lemma float_ulp_eq:
  assumes "2 powi n \<le> \<bar>r\<bar>" and "\<bar>r\<bar> < 2 powi (n + 1)" and "- 126 \<le> n"
  shows "float_ulp r = 2 powi (n - 23)"
proof -
  have "(0::real) < 2 powi n"
    by simp
  then have "0 < \<bar>r\<bar>"
    using assms(1) by linarith
  then have "\<lfloor>log 2 \<bar>r\<bar>\<rfloor> = n"
    using assms(1,2) by (simp add: floor_log_eq_powr_iff powi_powr)
  then show ?thesis
    using assms(3) by (simp add: float_ulp_def max_def)
qed


lemma to_float_recip_mass: "to_float (Fin (200 / 9)) = Fin (2912711 / 131072)"
proof -
  have "float_ulp (200 / 9) = 2 powi (4 - 23)"
    by (rule float_ulp_eq) simp_all
  then have u: "float_ulp (200 / 9) = 1 / 2 ^ 19"
    by (simp add: inverse_eq_divide)
  have "float_round (200 / 9) = 2912711 / 131072"
    by (simp add: float_round_def u round_even_def Let_def)
  then show ?thesis
    by simp
qed

lemma to_float_hundredth: "to_float (Fin (1 / 100)) = Fin (5368709 / 536870912)"
proof -
  have "float_ulp (1 / 100) = 2 powi (- 7 - 23)"
    by (rule float_ulp_eq) (simp_all add: inverse_eq_divide)
  then have u: "float_ulp (1 / 100) = 1 / 2 ^ 30"
    by (simp add: inverse_eq_divide)
  have "float_round (1 / 100) = 5368709 / 536870912"
    by (simp add: float_round_def u round_even_def Let_def)
  then show ?thesis
    by simp
qed

lemma to_float_zero: "to_float (Fin 0) = Fin 0"
  by (simp add: float_round_def)





lemma round_even_ge_floor: "\<lfloor>v\<rfloor> \<le> round_even v"
  by (simp add: round_even_def Let_def)

lemma to_float_overflow:
  assumes "2 ^ 128 \<le> r"
  shows "to_float (Fin r) = NaN"
proof -
  have r: "0 < r"
    using assms by (smt (verit) zero_less_power)
  define e where "e = \<lfloor>log 2 \<bar>r\<bar>\<rfloor>"
  have "128 \<le> log 2 \<bar>r\<bar>"
    using assms r by (simp add: le_log_iff)
  then have e: "128 \<le> e"
    unfolding e_def by (simp add: le_floor_iff)
  have u: "float_ulp r = 2 powi (e - 23)"
    using e by (simp add: float_ulp_def e_def max_def)
  have "2 powr of_int e \<le> \<bar>r\<bar>"
    using r unfolding e_def by (subst le_log_iff [symmetric]) simp_all
  then have le: "2 powi e \<le> r"
    using r by (simp add: powi_powr)
  have split: "(2::real) powi e = 2 ^ 23 * 2 powi (e - 23)"
    using power_int_add [of "2::real" 23 "e - 23"] by simp
  then have "2 ^ 23 \<le> r / 2 powi (e - 23)"
    using le by (simp add: pos_le_divide_eq)
  then have "(2::int) ^ 23 \<le> \<lfloor>r / 2 powi (e - 23)\<rfloor>"
    by (simp add: le_floor_iff)
  then have "(2::int) ^ 23 \<le> round_even (r / 2 powi (e - 23))"
    using round_even_ge_floor [of "r / 2 powi (e - 23)"] by linarith
  then have "(2::real) ^ 23 \<le> of_int (round_even (r / 2 powi (e - 23)))"
    by (metis of_int_le_iff of_int_numeral of_int_power)
  then have c: "(2::real) ^ 23 * 2 powi (e - 23) \<le>
      of_int (round_even (r / 2 powi (e - 23))) * 2 powi (e - 23)"
    by (intro mult_right_mono) simp_all
  have "(2::real) powi 128 \<le> 2 powi e"
    using e by (intro power_int_increasing) simp_all
  then have "(2::real) ^ 128 \<le> 2 powi e"
    by simp
  also have "\<dots> = 2 ^ 23 * 2 powi (e - 23)"
    by (rule split)
  also note c
  finally have "(2::real) ^ 128 \<le> of_int (round_even (r / 2 powi (e - 23))) * 2 powi (e - 23)" .
  moreover have "float_round r = of_int (round_even (r / 2 powi (e - 23))) * 2 powi (e - 23)"
    using r by (simp add: float_round_def u)
  ultimately have "2 ^ 128 \<le> \<bar>float_round r\<bar>"
    by linarith
  then show ?thesis
    by (simp add: not_less [symmetric] del: not_less)
qed

text \<open>
  The precision and the range of the conversion: a double between two floats goes to the
  nearer one, a tie to the one with the even significand, and \<open>1e39\<close> is beyond the
  largest float.
\<close>

lemma to_float_examples:
  "to_float (Fin (1 + 1 / 2 ^ 30)) = Fin 1"
  "to_float (Fin (1 + 1 / 2 ^ 24)) = Fin 1"
  "to_float (Fin (1 + 3 / 2 ^ 24)) = Fin (1 + 1 / 2 ^ 22)"
  "to_float (Fin (10 ^ 39)) = NaN"
proof -
  have u: "float_ulp r = 1 / 2 ^ 23" if "1 \<le> r" "r < 2" for r
  proof -
    have "float_ulp r = 2 powi (0 - 23)"
      using that by (intro float_ulp_eq) simp_all
    then show ?thesis
      by (simp add: inverse_eq_divide)
  qed
  have "float_round (1 + 1 / 2 ^ 30) = 1"
    by (simp add: float_round_def u round_even_def Let_def)
  then show "to_float (Fin (1 + 1 / 2 ^ 30)) = Fin 1"
    by (simp add: to_float.simps(1))
  have "float_round (1 + 1 / 2 ^ 24) = 1"
    by (simp add: float_round_def u round_even_def Let_def)
  then show "to_float (Fin (1 + 1 / 2 ^ 24)) = Fin 1"
    by (simp add: to_float.simps(1))
  have "float_round (1 + 3 / 2 ^ 24) = 1 + 1 / 2 ^ 22"
    by (simp add: float_round_def u round_even_def Let_def)
  then show "to_float (Fin (1 + 3 / 2 ^ 24)) = Fin (1 + 1 / 2 ^ 22)"
    by (simp add: to_float.simps(1))
  show "to_float (Fin (10 ^ 39)) = NaN"
    by (rule to_float_overflow) simp
qed

text \<open>From here on \<open>to_float\<close> is evaluated by the lemmas above only.\<close>

declare to_float.simps(1) [simp del]

section \<open>The shot force on finite arguments\<close>

lemma shot_sigma_pos: "0 < shot_sigma cr c"
  by (simp add: shot_sigma_def max_def)

lemma sigma_finite: "fmax (Fin cr * Fin c) SIGMA_MIN = Fin (shot_sigma cr c)"
  by (simp add: shot_sigma_def SIGMA_MIN_def)

lemma normalCDF_finite: "normalCDF (Fin v) = Fin ((1 + erf (v / sqrt 2)) / 2)"
  by (simp add: normalCDF_def double_simps)

lemma norm_finite:
  "normalCDF ((Fin ct - Fin ct / 2) / Fin (shot_sigma cr c)) -
     normalCDF ((0 - Fin ct / 2) / Fin (shot_sigma cr c)) = Fin (shot_norm cr c ct)"
  using shot_sigma_pos [of cr c]
  by (simp add: normalCDF_finite double_simps shot_norm_def gaussian_cdf_def mult.assoc)




text \<open>
  The denominator is a value of the error function; two bounds on it give concrete
  parameter sets on either side of the threshold \<open>1e-12\<close>.
\<close>

lemma shot_norm_erf: "shot_norm cr c ct = erf (ct / (2 * (shot_sigma cr c * sqrt 2)))"
proof -
  have h: "(1 + e) / 2 - (1 - e) / 2 = e" for e :: real
    by (simp add: field_simps)
  show ?thesis
    using shot_sigma_pos [of cr c]
    by (simp add: shot_norm_def gaussian_cdf_def erf_minus h)
qed


lemma erf_le_twice:
  assumes "0 \<le> u" "u \<le> 1"
  shows "erf u \<le> 2 * u"
proof -
  have "sqrt 1 \<le> sqrt pi"
    using pi_ge_two by (intro real_sqrt_le_mono) simp
  then have "1 \<le> sqrt pi"
    by simp
  then have "2 / sqrt pi \<le> 2"
    by (simp add: field_simps)
  then have "2 / sqrt pi * u \<le> 2 * u"
    using assms by (intro mult_right_mono) simp_all
  with erf_bounds(2) [OF assms] show ?thesis
    by simp
qed


lemma shot_norm_small_example: "shot_norm 1 1 (1 / 10 ^ 13) < 1 / 10 ^ 12"
proof -
  have s: "shot_sigma 1 1 = 1"
    by (simp add: shot_sigma_def)
  have e: "shot_norm 1 1 (1 / 10 ^ 13) = erf (1 / 10 ^ 13 / (2 * sqrt 2))"
    unfolding shot_norm_erf s by simp
  have "1 \<le> sqrt 2"
    by simp
  then have u: "1 / 10 ^ 13 / (2 * sqrt 2) \<le> 1 / 10 ^ 13 / (2 * 1)"
    by (intro divide_left_mono mult_left_mono) simp_all
  have "(1::real) / 10 ^ 13 / (2 * 1) \<le> 1"
    by simp
  with u have u1: "1 / 10 ^ 13 / (2 * sqrt 2) \<le> 1"
    by (rule order_trans)
  have "erf (1 / 10 ^ 13 / (2 * sqrt 2)) \<le> 2 * (1 / 10 ^ 13 / (2 * sqrt 2))"
    using u1 by (intro erf_le_twice) simp_all
  also have "\<dots> \<le> 2 * (1 / 10 ^ 13 / (2 * 1))"
    using u by (intro mult_left_mono) simp_all
  also have "\<dots> < 1 / 10 ^ 12"
    by simp
  finally show ?thesis
    unfolding e .
qed





text \<open>
  With the arithmetic of \<open>double\<close> the function over an arbitrary arithmetic is
  \<open>calculateShotForce\<close>, and its \<open>norm\<close> is the denominator of the specification.
\<close>

lemma normalCDF_with_double: "normalCDF_with double_arith v = normalCDF v"
  by (simp add: normalCDF_with_def normalCDF_def double_arith_def double_simps)

lemma calculateShotForce_with_double:
  "calculateShotForce_with double_arith te bm rpm bwr gr twr c cr ct t =
     calculateShotForce te bm rpm bwr gr twr c cr ct t"
  unfolding calculateShotForce_with_def calculateShotForce_def normalCDF_with_double
  by (simp add: double_arith_def double_simps Let_def)

lemma norm_with_double_expr:
  "norm_with double_arith c cr ct =
     normalCDF ((ct - ct / 2) / fmax (cr * c) SIGMA_MIN) -
     normalCDF ((0 - ct / 2) / fmax (cr * c) SIGMA_MIN)"
  unfolding norm_with_def normalCDF_with_double Let_def
  by (simp add: double_arith_def double_simps)

lemma norm_with_double:
  "norm_with double_arith (Fin c) (Fin cr) (Fin ct) = Fin (shot_norm cr c ct)"
  by (simp only: norm_with_double_expr sigma_finite norm_finite)


section \<open>Properties of the shot force\<close>



text \<open>
  C2: for every parameter set and every time \<open>t\<close> with \<open>t < 0\<close> or \<open>t > contactTime\<close>,
  \<open>calculateShotForce\<close> returns exactly 0. The arguments range over all doubles, NaN
  included.
\<close>

theorem calculateShotForce_outside_window:
  "t < 0 \<or> t > ct \<Longrightarrow> calculateShotForce te bm rpm bwr gr twr c cr ct t = 0"
  by (simp add: calculateShotForce_def)

theorem calculateShotForce_outside_window_witness:
  "(Fin (- 1) < 0 \<or> Fin (- 1) > Fin 0.02) \<and>
   calculateShotForce (Fin 0.8) (Fin 0.045) (Fin 4000) (Fin 0.05) (Fin 1) (Fin 0.05) (Fin 0.01)
     (Fin 0.5) (Fin 0.02) (Fin (- 1)) = 0 \<and>
   (Fin 0.03 < 0 \<or> Fin 0.03 > Fin 0.02) \<and>
   calculateShotForce (Fin 0.8) (Fin 0.045) (Fin 4000) (Fin 0.05) (Fin 1) (Fin 0.05) (Fin 0.01)
     (Fin 0.5) (Fin 0.02) (Fin 0.03) = 0"
  using calculateShotForce_outside_window [of "Fin (- 1)" "Fin 0.02" "Fin 0.8" "Fin 0.045"
      "Fin 4000" "Fin 0.05" "Fin 1" "Fin 0.05" "Fin 0.01" "Fin 0.5"]
    calculateShotForce_outside_window [of "Fin 0.03" "Fin 0.02" "Fin 0.8" "Fin 0.045"
      "Fin 4000" "Fin 0.05" "Fin 1" "Fin 0.05" "Fin 0.01" "Fin 0.5"]
  by (simp add: zero_double_def)

text \<open>
  C5: whenever the normalisation denominator \<open>CDF(contactTime) - CDF(0)\<close>, as the function
  computes it in the variable \<open>norm\<close>, is smaller than \<open>1e-12\<close>, \<open>calculateShotForce\<close>
  returns 0 and does not divide by it. This holds for every arithmetic, so also for
  IEEE doubles with rounding, for every parameter set and for every time (inside the
  contact window or not). The witness is in the arithmetic of \<open>double\<close>, with
  \<open>contactTime = 1e-13\<close> and \<open>sigma = 1\<close>.
\<close>

theorem calculateShotForce_norm_guard:
  assumes "op_less A (norm_with A c cr ct) (op_lit A (1 / 10 ^ 12))"
  shows "calculateShotForce_with A te bm rpm bwr gr twr c cr ct t = op_lit A 0"
  using assms by (simp add: calculateShotForce_with_def norm_with_def Let_def)

theorem calculateShotForce_norm_guard_witness:
  "op_less double_arith (norm_with double_arith (Fin 1) (Fin 1) (Fin (1 / 10 ^ 13)))
     (op_lit double_arith (1 / 10 ^ 12)) \<and>
   calculateShotForce_with double_arith (Fin 0.8) (Fin 0.045) (Fin 4000) (Fin 0.05) (Fin 1)
     (Fin 0.05) (Fin 1) (Fin 1) (Fin (1 / 10 ^ 13)) (Fin 0) = op_lit double_arith 0 \<and>
   calculateShotForce (Fin 0.8) (Fin 0.045) (Fin 4000) (Fin 0.05) (Fin 1)
     (Fin 0.05) (Fin 1) (Fin 1) (Fin (1 / 10 ^ 13)) (Fin 0) = 0"
proof -
  have h: "op_less double_arith (norm_with double_arith (Fin 1) (Fin 1) (Fin (1 / 10 ^ 13)))
     (op_lit double_arith (1 / 10 ^ 12))"
    using shot_norm_small_example by (simp add: norm_with_double) (simp add: double_arith_def)
  have r: "calculateShotForce_with double_arith (Fin 0.8) (Fin 0.045) (Fin 4000) (Fin 0.05) (Fin 1)
     (Fin 0.05) (Fin 1) (Fin 1) (Fin (1 / 10 ^ 13)) (Fin 0) = op_lit double_arith 0"
    by (rule calculateShotForce_norm_guard [OF h])
  then have "calculateShotForce (Fin 0.8) (Fin 0.045) (Fin 4000) (Fin 0.05) (Fin 1)
     (Fin 0.05) (Fin 1) (Fin 1) (Fin (1 / 10 ^ 13)) (Fin 0) = 0"
    by (simp add: calculateShotForce_with_double) (simp add: double_arith_def zero_double_def)
  with h r show ?thesis
    by blast
qed






section \<open>Properties of the forces and of the integration step\<close>

lemma scalarMultiply_finite:
  assumes "to_float scalar = Fin f"
  shows "scalarMultiply \<lparr>x = Fin a, y = Fin b, z = Fin c\<rparr> scalar =
         \<lparr>x = Fin (a * f), y = Fin (b * f), z = Fin (c * f)\<rparr>"
  using assms by (simp add: scalarMultiply_def)


lemma vectorMagnitude_finite:
  "vectorMagnitude \<lparr>x = Fin a, y = Fin b, z = Fin c\<rparr> = Fin (sqrt (a * a + b * b + c * c))"
proof -
  have "\<not> a * a + b * b + c * c < 0"
    by (simp add: not_less)
  then show ?thesis
    by (simp add: vectorMagnitude_def del: not_less)
qed



text \<open>
  C3 (the code departs from the claim): from the initial globals, where the velocity is
  zero and the drag, Magnus and shot forces are zero, one step \<open>updateAcceleration\<close>,
  \<open>updateVelocity\<close>, \<open>updatePosition\<close> with \<open>timeStep = 0.01\<close> is claimed to give
  \<open>velocity.z\<close> about \<open>-0.0981\<close> and \<open>position.z\<close> about \<open>-0.000981\<close>. The code divides
  \<open>gravityForce = (0, 0, -9.81)\<close> by \<open>ballMass = 0.045\<close>: the factor \<open>1.0 / ballMass\<close> is
  \<open>2912711 / 131072 = 22.2222214\<close> as a float and \<open>timeStep\<close> is
  \<open>5368709 / 536870912 = 0.00999999978\<close> as a float, so the acceleration is \<open>-217.99999\<close>
  and the step gives \<open>velocity.z = -2.1799999\<close> and \<open>position.z = -0.0218\<close>.
\<close>

theorem gravity_step_from_rest:
  "acceleration (updateAcceleration initial_globals) =
     createVector 0 0 (Fin (- 9.81 * (2912711 / 131072))) \<and>
   velocity (updatePosition (updateVelocity (updateAcceleration initial_globals))) =
     createVector 0 0 (Fin (- 9.81 * (2912711 / 131072) * (5368709 / 536870912))) \<and>
   position (updatePosition (updateVelocity (updateAcceleration initial_globals))) =
     createVector 0 0
       (Fin (- 9.81 * (2912711 / 131072) * (5368709 / 536870912) * (5368709 / 536870912))) \<and>
   \<bar>- 9.81 * (2912711 / 131072) * (5368709 / 536870912) - (- 2.18 :: real)\<bar> < 1 / 10 ^ 6 \<and>
   \<bar>- 9.81 * (2912711 / 131072) * (5368709 / 536870912) * (5368709 / 536870912) -
      (- 0.0218 :: real)\<bar> < 1 / 10 ^ 8"
proof -
  have m: "1 / ballMass initial_globals = Fin (200 / 9)"
    by (simp add: initial_globals_def double_simps)
  have t: "timeStep initial_globals = Fin (1 / 100)"
    by (simp add: initial_globals_def double_simps)
  show ?thesis
    by (simp add: updatePosition_def updateVelocity_def updateAcceleration_def Let_def m t
        scalarMultiply_def to_float_recip_mass to_float_hundredth)
      (simp add: initial_globals_def add_def createVector_def double_simps)
qed

text \<open>
  C4 (the code departs from the claim): with the velocity zero the drag force is claimed
  to be the zero vector. \<open>updateDragForce\<close> has no case for zero speed: it divides
  \<open>-1.0\<close> by the speed 0 and multiplies the zero components by the quotient, so every
  component of \<open>dragForce\<close> is NaN. The initial globals, whose velocity is zero, already
  show it.
\<close>

theorem drag_at_zero_velocity:
  "velocity initial_globals = createVector 0 0 0 \<and>
   dragForce (updateDragForce initial_globals) = createVector NaN NaN NaN"
  by (simp add: updateDragForce_def initial_globals_def vectorMagnitude_def
      scalarMultiply_def createVector_def double_simps Let_def)

text \<open>The same for every state of the globals whose velocity is zero.\<close>

lemma drag_zero_velocity_NaN:
  "velocity s = createVector 0 0 0 \<Longrightarrow> dragForce (updateDragForce s) = createVector NaN NaN NaN"
  by (simp add: updateDragForce_def vectorMagnitude_def
      scalarMultiply_def createVector_def double_simps Let_def times_NaN)

text \<open>
  The second half of C4 holds: for a non-zero velocity the drag force is the velocity
  scaled by \<open>d * m\<close>, where \<open>d\<close> is \<open>- 1 / speed\<close> and \<open>m\<close> is
  \<open>k = 1/2 * airDensity * speed\<^sup>2 * dragCoefficient * ballArea\<close>, both converted to
  \<open>float\<close>; its magnitude is \<open>\<bar>d * m\<bar> * speed\<close>.
\<close>

lemma drag_nonzero_velocity:
  assumes ve: "velocity s = createVector (Fin vx) (Fin vy) (Fin vz)"
    and nz: "vx \<noteq> 0 \<or> vy \<noteq> 0 \<or> vz \<noteq> 0"
    and co: "airDensity s = Fin rho" "dragCoefficient s = Fin cd" "ballArea s = Fin A"
  defines "speed \<equiv> sqrt (vx * vx + vy * vy + vz * vz)"
  defines "k \<equiv> 1 / 2 * rho * speed\<^sup>2 * cd * A"
  assumes fl: "to_float (Fin (- (1 / speed))) = Fin d" "to_float (Fin k) = Fin m"
  shows "dragForce (updateDragForce s) =
           createVector (Fin (vx * d * m)) (Fin (vy * d * m)) (Fin (vz * d * m))"
    and "vectorMagnitude (dragForce (updateDragForce s)) = Fin (\<bar>d * m\<bar> * speed)"
proof -
  have sq: "0 \<le> a * a" "a \<noteq> 0 \<longrightarrow> 0 < a * a" for a :: real
    by (simp_all add: zero_less_mult_iff less_imp_neq neq_iff)
  have pos: "0 < vx * vx + vy * vy + vz * vz"
    using nz sq [of vx] sq [of vy] sq [of vz] by linarith
  then have sp: "0 < speed"
    by (simp add: speed_def)
  have mag: "vectorMagnitude \<lparr>x = Fin vx, y = Fin vy, z = Fin vz\<rparr> = Fin speed"
    by (simp add: vectorMagnitude_finite speed_def)
  have dm: "0.5 * airDensity s * Fin speed * Fin speed * dragCoefficient s * ballArea s = Fin k"
    by (simp add: co double_simps k_def power2_eq_square)
  have dir: "- 1 / Fin speed = Fin (- (1 / speed))"
    using sp by (simp add: double_simps)
  show d: "dragForce (updateDragForce s) =
      createVector (Fin (vx * d * m)) (Fin (vy * d * m)) (Fin (vz * d * m))"
    by (simp add: updateDragForce_def Let_def ve createVector_def mag dm dir
        scalarMultiply_finite [OF fl(1)] scalarMultiply_finite [OF fl(2)])
  have "sqrt ((vx * q) * (vx * q) + (vy * q) * (vy * q) + (vz * q) * (vz * q)) = \<bar>q\<bar> * speed"
    for q :: real
  proof -
    have "(vx * q) * (vx * q) + (vy * q) * (vy * q) + (vz * q) * (vz * q) =
        q\<^sup>2 * (vx * vx + vy * vy + vz * vz)"
      by algebra
    then show ?thesis
      by (simp add: real_sqrt_mult speed_def)
  qed
  from this [of "d * m"] show "vectorMagnitude (dragForce (updateDragForce s)) =
      Fin (\<bar>d * m\<bar> * speed)"
    unfolding d by (simp add: vectorMagnitude_finite createVector_def mult.assoc)
qed




text \<open>
  C9 as stated fails by the type of a parameter. The claim gives the velocity
  \<open>v + a * timeStep\<close>; \<open>scalarMultiply\<close> takes its scalar as a \<open>float\<close>, and
  \<open>timeStep = 0.01\<close> becomes \<open>0.00999999977648\<close>. With velocity \<open>(4, 5, 6)\<close> and acceleration
  \<open>(0, 0, -9.81)\<close> the new \<open>velocity.z\<close> is not \<open>6 - 9.81 * 0.01\<close>.
\<close>

theorem euler_step_float_time_step:
  "velocity (initial_globals\<lparr>velocity := createVector 4 5 6,
      acceleration := createVector 0 0 (- 9.81)\<rparr>) = createVector 4 5 6 \<and>
   acceleration (initial_globals\<lparr>velocity := createVector 4 5 6,
      acceleration := createVector 0 0 (- 9.81)\<rparr>) = createVector 0 0 (- 9.81) \<and>
   timeStep (initial_globals\<lparr>velocity := createVector 4 5 6,
      acceleration := createVector 0 0 (- 9.81)\<rparr>) = 0.01 \<and>
   velocity (updatePosition (updateVelocity (initial_globals\<lparr>velocity := createVector 4 5 6,
      acceleration := createVector 0 0 (- 9.81)\<rparr>))) \<noteq>
     createVector (Fin (4 + 0 * 0.01)) (Fin (5 + 0 * 0.01)) (Fin (6 + (- 9.81) * 0.01))"
proof -
  let ?s = "initial_globals\<lparr>velocity := createVector 4 5 6,
      acceleration := createVector 0 0 (- 9.81)\<rparr>"
  have t: "timeStep initial_globals = Fin (1 / 100)"
    by (simp add: initial_globals_def double_simps)
  have "velocity (updatePosition (updateVelocity ?s)) =
      createVector (Fin 4) (Fin 5) (Fin (6 + (- 9.81) * (5368709 / 536870912)))"
    by (simp add: updatePosition_def updateVelocity_def t scalarMultiply_def to_float_hundredth
        add_def createVector_def double_simps Let_def)
  then have "velocity (updatePosition (updateVelocity ?s)) \<noteq>
      createVector (Fin (4 + 0 * 0.01)) (Fin (5 + 0 * 0.01)) (Fin (6 + (- 9.81) * 0.01))"
    by (simp add: createVector_def)
  then show ?thesis
    by (simp add: initial_globals_def)
qed

text \<open>
  C9, amended: \<open>updateVelocity\<close> followed by \<open>updatePosition\<close> from position \<open>p\<close>, velocity
  \<open>v\<close> and acceleration \<open>a\<close> gives the velocity \<open>v' = v + a * f\<close> and the position
  \<open>p' = p + v' * f\<close>, where \<open>f\<close> is \<open>timeStep\<close> converted to \<open>float\<close>: the position
  update uses the velocity already updated (not \<open>p + v * f\<close>). The first two conjuncts
  state it with the vector operations of the code, for every state of the globals; the
  third gives the components when they are finite numbers, of absolute value at most
  \<open>1e100\<close> so that no sum or product leaves the range of double.
\<close>

theorem semi_implicit_euler_float:
  "velocity (updatePosition (updateVelocity s)) =
     add (velocity s) (scalarMultiply (acceleration s) (timeStep s)) \<and>
   position (updatePosition (updateVelocity s)) =
     add (position s) (scalarMultiply (velocity (updatePosition (updateVelocity s))) (timeStep s)) \<and>
   (position s = createVector (Fin px) (Fin py) (Fin pz) \<and>
    velocity s = createVector (Fin vx) (Fin vy) (Fin vz) \<and>
    acceleration s = createVector (Fin ax) (Fin ay) (Fin az) \<and>
    to_float (timeStep s) = Fin f \<and>
    bounded_vector (10 ^ 100) (position s) \<and> bounded_vector (10 ^ 100) (velocity s) \<and>
    bounded_vector (10 ^ 100) (acceleration s) \<longrightarrow>
    velocity (updatePosition (updateVelocity s)) =
      createVector (Fin (vx + ax * f)) (Fin (vy + ay * f)) (Fin (vz + az * f)) \<and>
    position (updatePosition (updateVelocity s)) =
      createVector (Fin (px + (vx + ax * f) * f)) (Fin (py + (vy + ay * f) * f))
        (Fin (pz + (vz + az * f) * f)))"
  by (simp add: updatePosition_def updateVelocity_def add_def scalarMultiply_def createVector_def)

theorem semi_implicit_euler_float_witness:
  "position (initial_globals\<lparr>position := createVector (Fin 1) (Fin 2) (Fin 3),
      velocity := createVector (Fin 4) (Fin 5) (Fin 6),
      acceleration := createVector (Fin 0) (Fin 0) (Fin (- 9.81))\<rparr>) =
     createVector (Fin 1) (Fin 2) (Fin 3) \<and>
   velocity (initial_globals\<lparr>position := createVector (Fin 1) (Fin 2) (Fin 3),
      velocity := createVector (Fin 4) (Fin 5) (Fin 6),
      acceleration := createVector (Fin 0) (Fin 0) (Fin (- 9.81))\<rparr>) =
     createVector (Fin 4) (Fin 5) (Fin 6) \<and>
   acceleration (initial_globals\<lparr>position := createVector (Fin 1) (Fin 2) (Fin 3),
      velocity := createVector (Fin 4) (Fin 5) (Fin 6),
      acceleration := createVector (Fin 0) (Fin 0) (Fin (- 9.81))\<rparr>) =
     createVector (Fin 0) (Fin 0) (Fin (- 9.81)) \<and>
   to_float (timeStep (initial_globals\<lparr>position := createVector (Fin 1) (Fin 2) (Fin 3),
      velocity := createVector (Fin 4) (Fin 5) (Fin 6),
      acceleration := createVector (Fin 0) (Fin 0) (Fin (- 9.81))\<rparr>)) =
     Fin (5368709 / 536870912) \<and>
   bounded_vector (10 ^ 100) (position (initial_globals\<lparr>position := createVector (Fin 1) (Fin 2) (Fin 3),
      velocity := createVector (Fin 4) (Fin 5) (Fin 6),
      acceleration := createVector (Fin 0) (Fin 0) (Fin (- 9.81))\<rparr>)) \<and>
   bounded_vector (10 ^ 100) (velocity (initial_globals\<lparr>position := createVector (Fin 1) (Fin 2) (Fin 3),
      velocity := createVector (Fin 4) (Fin 5) (Fin 6),
      acceleration := createVector (Fin 0) (Fin 0) (Fin (- 9.81))\<rparr>)) \<and>
   bounded_vector (10 ^ 100) (acceleration (initial_globals\<lparr>position := createVector (Fin 1) (Fin 2) (Fin 3),
      velocity := createVector (Fin 4) (Fin 5) (Fin 6),
      acceleration := createVector (Fin 0) (Fin 0) (Fin (- 9.81))\<rparr>)) \<and>
   velocity (updatePosition (updateVelocity
     (initial_globals\<lparr>position := createVector (Fin 1) (Fin 2) (Fin 3),
      velocity := createVector (Fin 4) (Fin 5) (Fin 6),
      acceleration := createVector (Fin 0) (Fin 0) (Fin (- 9.81))\<rparr>))) =
     createVector (Fin 4) (Fin 5) (Fin (6 + (- 9.81) * (5368709 / 536870912))) \<and>
   position (updatePosition (updateVelocity
     (initial_globals\<lparr>position := createVector (Fin 1) (Fin 2) (Fin 3),
      velocity := createVector (Fin 4) (Fin 5) (Fin 6),
      acceleration := createVector (Fin 0) (Fin 0) (Fin (- 9.81))\<rparr>))) =
     createVector (Fin (1 + 4 * (5368709 / 536870912))) (Fin (2 + 5 * (5368709 / 536870912)))
       (Fin (3 + (6 + (- 9.81) * (5368709 / 536870912)) * (5368709 / 536870912)))"
proof -
  let ?s = "initial_globals\<lparr>position := createVector (Fin 1) (Fin 2) (Fin 3),
      velocity := createVector (Fin 4) (Fin 5) (Fin 6),
      acceleration := createVector (Fin 0) (Fin 0) (Fin (- 9.81))\<rparr>"
  let ?f = "5368709 / 536870912 :: real"
  have "timeStep ?s = Fin (1 / 100)"
    by (simp add: initial_globals_def double_simps)
  then have t: "to_float (timeStep ?s) = Fin ?f"
    by (simp add: to_float_hundredth)
  have b: "bounded_vector (10 ^ 100) (position ?s) \<and> bounded_vector (10 ^ 100) (velocity ?s) \<and>
      bounded_vector (10 ^ 100) (acceleration ?s)"
    by (simp add: bounded_vector_def createVector_def)
  have h: "position ?s = createVector (Fin 1) (Fin 2) (Fin 3) \<and>
      velocity ?s = createVector (Fin 4) (Fin 5) (Fin 6) \<and>
      acceleration ?s = createVector (Fin 0) (Fin 0) (Fin (- 9.81)) \<and>
      to_float (timeStep ?s) = Fin ?f"
    using t by simp
  have "velocity (updatePosition (updateVelocity ?s)) =
      createVector (Fin (4 + 0 * ?f)) (Fin (5 + 0 * ?f)) (Fin (6 + (- 9.81) * ?f)) \<and>
    position (updatePosition (updateVelocity ?s)) =
      createVector (Fin (1 + (4 + 0 * ?f) * ?f)) (Fin (2 + (5 + 0 * ?f) * ?f))
        (Fin (3 + (6 + (- 9.81) * ?f) * ?f))"
    using semi_implicit_euler_float [of ?s 1 2 3 4 5 6 0 0 "- 9.81" ?f] h b by blast
  then have "velocity (updatePosition (updateVelocity ?s)) =
      createVector (Fin 4) (Fin 5) (Fin (6 + (- 9.81) * ?f)) \<and>
    position (updatePosition (updateVelocity ?s)) =
      createVector (Fin (1 + 4 * ?f)) (Fin (2 + 5 * ?f)) (Fin (3 + (6 + (- 9.81) * ?f) * ?f))"
    by simp
  with h b show ?thesis
    by blast
qed

text \<open>
  C10: the force and acceleration updates leave the kinematic state alone:
  \<open>updateDragForce\<close>, \<open>updateMagnusForce\<close>, \<open>updateShotForce\<close>, \<open>updateForces\<close> and
  \<open>updateAcceleration\<close> leave \<open>position\<close>, \<open>velocity\<close> and \<open>spinVector\<close> unchanged, and
  \<open>updateVelocity\<close> leaves \<open>position\<close> unchanged.
\<close>

theorem force_updates_frame:
  "position (updateDragForce s) = position s \<and>
   velocity (updateDragForce s) = velocity s \<and>
   spinVector (updateDragForce s) = spinVector s \<and>
   position (updateMagnusForce s) = position s \<and>
   velocity (updateMagnusForce s) = velocity s \<and>
   spinVector (updateMagnusForce s) = spinVector s \<and>
   position (updateShotForce s) = position s \<and>
   velocity (updateShotForce s) = velocity s \<and>
   spinVector (updateShotForce s) = spinVector s \<and>
   position (updateForces s) = position s \<and>
   velocity (updateForces s) = velocity s \<and>
   spinVector (updateForces s) = spinVector s \<and>
   position (updateAcceleration s) = position s \<and>
   velocity (updateAcceleration s) = velocity s \<and>
   spinVector (updateAcceleration s) = spinVector s \<and>
   position (updateAcceleration (updateForces s)) = position s \<and>
   velocity (updateAcceleration (updateForces s)) = velocity s \<and>
   spinVector (updateAcceleration (updateForces s)) = spinVector s \<and>
   position (updateVelocity s) = position s"
  by (simp add: updateForces_def updateDragForce_def updateMagnusForce_def updateShotForce_def
      updateAcceleration_def updateVelocity_def Let_def)

end
